theory Spec2Isabelle
  imports Complex_Main "HOL-Library.Multiset"
begin

section \<open>Exceptions\<close>

text \<open>
  The notebooks raise or can meet six kinds of exception: a \<open>KeyError\<close> from indexing
  a dictionary at a missing key, an \<open>AttributeError\<close> from reading or deleting an
  attribute that an object does not have, a \<open>ValueError\<close> from the optimizer's
  constructor, a \<open>FileNotFoundError\<close> from loading a file that does not exist, the
  plain \<open>Exception\<close> of the timing guard in the pipeline loop, and whatever the
  deep-learning framework raises inside \<open>train\<close> or \<open>test\<close>.
\<close>

datatype exn =
    KeyError string
  | AttributeError string
  | ValueError string
  | FileNotFoundError string
  | Exception string
  | FrameworkError string

section \<open>Exercise 1: four calls of a slow function\<close>

text \<open>
  \<^verbatim>\<open>
  def slow_function(i):
      time.sleep(1)
      return i

  results = []
  for i in range(4):
    results.append(slow_function(i))
  \<close>
  \<open>time.sleep\<close> spends wall-clock time and has no value, so the model of
  \<open>slow_function\<close> is the identity. The loop appends in the order of \<open>range(4)\<close>.
\<close>

definition slow_function :: "'a \<Rightarrow> 'a" where
  "slow_function i = i"

definition exercise1_loop :: "int list" where
  "exercise1_loop = fold (\<lambda>i results. results @ [slow_function i]) (map int [0..<4]) []"

subsection \<open>Remote calls and the object store\<close>

text \<open>
  Modelled from the spec: the remote-call decorator and the blocking "resolve all futures"
  operation belong to the external task library and are not under \<open>src/\<close>. The spec
  describes a function that "converts a plain function into an asynchronously-schedulable
  unit returning a future-like handle" and "a blocking resolve all futures operation"; the
  notebook adds that \<open>ray.get\<close> of the handle returned by \<open>f.remote(x)\<close> is the
  value \<open>f(x)\<close>.

  A handle is an object id. \<open>remote\<close> registers the task under a fresh id and returns
  the id at once. The tasks then finish in some order, each storing its value under its
  own id; \<open>finished\<close> is the object store once the tasks of \<open>order\<close> have finished
  in that order. \<open>ray_get\<close> reads the ids of a list in the order of the list and is
  \<open>None\<close> while a value is missing (the call is still blocked).
\<close>

type_synonym object_id = nat

definition remote :: "'a \<Rightarrow> (object_id \<times> 'a) list \<Rightarrow> object_id \<times> (object_id \<times> 'a) list" where
  "remote x tasks = (length tasks, tasks @ [(length tasks, x)])"

definition remote_loop :: "'a list \<Rightarrow> object_id list \<times> (object_id \<times> 'a) list" where
  "remote_loop args =
     fold (\<lambda>i (results, tasks).
             case remote i tasks of (oid, tasks') \<Rightarrow> (results @ [oid], tasks'))
          args ([], [])"

definition finished :: "('a \<Rightarrow> 'b) \<Rightarrow> (object_id \<times> 'a) list \<Rightarrow> (object_id \<rightharpoonup> 'b)" where
  "finished f order = fold (\<lambda>(oid, x) store. store(oid \<mapsto> f x)) order Map.empty"

definition ray_get :: "(object_id \<rightharpoonup> 'b) \<Rightarrow> object_id list \<Rightarrow> 'b list option" where
  "ray_get store ids = those (map store ids)"

section \<open>Exercise 2: the data-processing pipeline\<close>

text \<open>
  \<^verbatim>\<open>
  def load_data(filename):
      time.sleep(0.1)
      return np.ones((1000, 100))

  def normalize_data(data):
      time.sleep(0.1)
      return data - np.mean(data, axis=0)

  def extract_features(normalized_data):
      time.sleep(0.1)
      return np.hstack([normalized_data, normalized_data ** 2])

  def compute_loss(features):
      num_data, dim = features.shape
      time.sleep(0.1)
      return np.sum((np.dot(features, np.ones(dim)) - np.ones(num_data)) ** 2)
  \<close>
  A two-dimensional array is the list of its rows, a one-dimensional array a list. The
  entries are \<open>real\<close>: every number that occurs in this pipeline is an integer of
  magnitude at most 1000, which double precision represents and adds exactly, so exact
  arithmetic computes what the floating-point code computes here. The array operations
  pair entries by position; the shapes they meet in the pipeline always agree, so the
  shape errors of the array library have no branch.
\<close>

type_synonym ndarray = "real list list"

definition np_ones :: "nat \<Rightarrow> nat \<Rightarrow> ndarray" where
  "np_ones n m = replicate n (replicate m 1)"

definition np_ones1 :: "nat \<Rightarrow> real list" where
  "np_ones1 n = replicate n 1"

definition shape :: "ndarray \<Rightarrow> nat \<times> nat" where
  "shape a = (length a, (case a of [] \<Rightarrow> 0 | r # _ \<Rightarrow> length r))"

definition np_mean_axis0 :: "ndarray \<Rightarrow> real list" where
  "np_mean_axis0 a =
     map (\<lambda>j. sum_list (map (\<lambda>r. r ! j) a) / real (length a)) [0..<snd (shape a)]"

definition sub_broadcast :: "ndarray \<Rightarrow> real list \<Rightarrow> ndarray" where
  "sub_broadcast a v = map (\<lambda>r. map2 (-) r v) a"

definition np_square :: "ndarray \<Rightarrow> ndarray" where
  "np_square a = map (map (\<lambda>x. x\<^sup>2)) a"

definition np_hstack :: "ndarray \<Rightarrow> ndarray \<Rightarrow> ndarray" where
  "np_hstack a b = map2 (@) a b"

definition np_dot :: "ndarray \<Rightarrow> real list \<Rightarrow> real list" where
  "np_dot a v = map (\<lambda>r. sum_list (map2 (*) r v)) a"

definition load_data :: "string \<Rightarrow> ndarray" where
  "load_data filename = np_ones 1000 100"

definition normalize_data :: "ndarray \<Rightarrow> ndarray" where
  "normalize_data data = sub_broadcast data (np_mean_axis0 data)"

definition extract_features :: "ndarray \<Rightarrow> ndarray" where
  "extract_features normalized_data = np_hstack normalized_data (np_square normalized_data)"

definition compute_loss :: "ndarray \<Rightarrow> real" where
  "compute_loss features =
     (case shape features of (num_data, dim') \<Rightarrow>
        sum_list (map (\<lambda>x. x\<^sup>2)
                      (map2 (-) (np_dot features (np_ones1 dim')) (np_ones1 num_data))))"

text \<open>
  \<^verbatim>\<open>
  losses = []
  for filename in ['file1', 'file2', 'file3', 'file4']:
      inner_start = time.time()
      data = load_data(filename)
      normalized_data = normalize_data(data)
      features = extract_features(normalized_data)
      loss = compute_loss(features)
      losses.append(loss)
      inner_end = time.time()
      if inner_end - inner_start >= 0.1:
          raise Exception(...)
  loss = sum(losses)
  \<close>
  The two clock readings of an iteration are not a function of the program's data; the
  loop takes them as input, one pair for the iteration of each file, so that the guard is
  a branch.
\<close>

definition file_loss :: "string \<Rightarrow> real" where
  "file_loss filename = compute_loss (extract_features (normalize_data (load_data filename)))"

definition filenames :: "string list" where
  "filenames = [''file1'', ''file2'', ''file3'', ''file4'']"

fun losses_loop :: "(string \<Rightarrow> real \<times> real) \<Rightarrow> string list \<Rightarrow> real list \<Rightarrow> exn + real list" where
  "losses_loop clock [] losses = Inr losses"
| "losses_loop clock (filename # rest) losses =
     (case clock filename of (inner_start, inner_end) \<Rightarrow>
        (let loss = file_loss filename;
             losses' = losses @ [loss]
         in if inner_end - inner_start \<ge> 0.1
            then Inl (Exception
                (''You may be calling ray.get inside of the for loop! '' @
                 ''Doing this will prevent parallelism from being exposed. '' @
                 ''Make sure to only call ray.get once outside of the for loop.''))
            else losses_loop clock rest losses'))"

definition pipeline_loss :: "(string \<Rightarrow> real \<times> real) \<Rightarrow> exn + real" where
  "pipeline_loss clock =
     (case losses_loop clock filenames [] of
        Inl e \<Rightarrow> Inl e
      | Inr losses \<Rightarrow> Inr (sum_list losses))"

section \<open>Exercise 3: nested training tasks\<close>

text \<open>
  \<^verbatim>\<open>
  def compute_gradient(data, current_model):
      time.sleep(0.03)
      return 1

  def train_model(hyperparameters):
      current_model = 0
      for _ in range(10):
          total_gradient = sum([compute_gradient(j, current_model) for j in range(2)])
          current_model += total_gradient
      return current_model
  \<close>
  Python integers are unbounded, so the model counts in \<open>int\<close>.
\<close>

definition compute_gradient :: "nat \<Rightarrow> int \<Rightarrow> int" where
  "compute_gradient data current_model = 1"

definition train_model :: "'h \<Rightarrow> int" where
  "train_model hyperparameters =
     fold (\<lambda>_ current_model.
             current_model + sum_list (map (\<lambda>j. compute_gradient j current_model) [0..<2]))
          [0..<10] 0"

text \<open>
  The driver cell: one call per hyperparameter dictionary, the results appended in order.
\<close>

definition experiments :: "'h list \<Rightarrow> int list" where
  "experiments hs = fold (\<lambda>hyperparameters results. results @ [train_model hyperparameters]) hs []"

section \<open>Configurations\<close>

text \<open>
  A configuration is a Python dictionary from hyperparameter names to numbers.
  \<open>config.get(k, default)\<close> never raises; \<open>config[k]\<close> raises \<open>KeyError\<close> at a
  missing key.
\<close>

type_synonym config = "string \<rightharpoonup> real"

definition dict_get :: "(string \<rightharpoonup> 'v) \<Rightarrow> string \<Rightarrow> 'v \<Rightarrow> 'v" where
  "dict_get d k default' = (case d k of None \<Rightarrow> default' | Some v \<Rightarrow> v)"

definition dict_index :: "(string \<rightharpoonup> 'v) \<Rightarrow> string \<Rightarrow> exn + 'v" where
  "dict_index d k = (case d k of None \<Rightarrow> Inl (KeyError k) | Some v \<Rightarrow> Inr v)"

section \<open>The deep-learning framework\<close>

text \<open>
  The model class, the data loaders, the optimizer and the functions \<open>train\<close> and
  \<open>test\<close> come from the framework and its example module; the notebooks only call
  them. They are parameters of the embedding, collected in one record. A \<open>ConvNet\<close> has
  a fixed architecture, so its value is its state dict, of type \<open>'w\<close>. \<open>train\<close>
  updates the weights and the optimizer's buffers in place; here it returns both. It and
  \<open>test\<close> may raise. Building the model and the loaders is taken to succeed.

  The first argument of \<open>optim.SGD\<close> is a reference to the tensors of the model. The
  optimizer reads and writes the weights through it during \<open>train\<close>, which is why
  \<open>train\<close> takes the model and returns it; the value of the optimizer itself is its
  two hyperparameters and its buffers, empty when it is new. The constructor checks its
  arguments in order: a negative learning rate raises \<open>ValueError\<close>, then a negative
  momentum does. The messages are kept without the number the framework prints after
  them. The hyperparameters are real numbers here, so the values that are not numbers
  have no branch.
\<close>

datatype device = Device string

record 'b optimizer =
  lr :: real
  momentum :: real
  buffers :: "'b option"

definition SGD :: "'w \<Rightarrow> real \<Rightarrow> real \<Rightarrow> exn + 'b optimizer" where
  "SGD params lr' momentum' =
     (if lr' < 0 then Inl (ValueError ''Invalid learning rate'')
      else if momentum' < 0 then Inl (ValueError ''Invalid momentum value'')
      else Inr \<lparr>lr = lr', momentum = momentum', buffers = None\<rparr>)"

record ('w, 'l, 'b) framework =
  ConvNet :: 'w
  get_data_loaders :: "'l \<times> 'l"
  train :: "'w \<Rightarrow> 'b optimizer \<Rightarrow> 'l \<Rightarrow> device \<Rightarrow> exn + 'w \<times> 'b optimizer"
  test :: "'w \<Rightarrow> 'l \<Rightarrow> device \<Rightarrow> exn + real"

text \<open>
  \<open>os.path.join\<close> with two components, on a POSIX system.
\<close>

definition os_path_join :: "string \<Rightarrow> string \<Rightarrow> string" where
  "os_path_join a b =
     (if b \<noteq> [] \<and> hd b = CHR ''/'' then b
      else if a = [] \<or> last a = CHR ''/'' then a @ b
      else a @ ''/'' @ b)"

section \<open>The function-form trainable\<close>

text \<open>
  \<^verbatim>\<open>
  def train_mnist(config):
      model = ConvNet()
      train_loader, test_loader = get_data_loaders()
      optimizer = optim.SGD(
          model.parameters(), lr=config["lr"], momentum=config["momentum"])
      for i in range(20):
          train(model, optimizer, train_loader)
          acc = test(model, test_loader)
          if i % 5 == 0:
              torch.save(model, "./model.pth")
  \<close>
  The function returns nothing; what it leaves behind is the files of the trial's working
  directory, a map from paths to saved models. \<open>train\<close> and \<open>test\<close> run on their
  default device, the CPU. There is no \<open>try\<close> in the body: an exception of a lookup,
  of the optimizer's constructor, of \<open>train\<close> or of \<open>test\<close> ends the function.
\<close>

fun train_mnist_loop ::
  "('w, 'l, 'b) framework \<Rightarrow> 'l \<Rightarrow> 'l \<Rightarrow> nat list \<Rightarrow> 'w \<Rightarrow> 'b optimizer \<Rightarrow> (string \<rightharpoonup> 'w)
     \<Rightarrow> exn + (string \<rightharpoonup> 'w)" where
  "train_mnist_loop fw train_loader test_loader [] model optimizer files = Inr files"
| "train_mnist_loop fw train_loader test_loader (i # rest) model optimizer files =
     (case train fw model optimizer train_loader (Device ''cpu'') of
        Inl e \<Rightarrow> Inl e
      | Inr (model', optimizer') \<Rightarrow>
          (case test fw model' test_loader (Device ''cpu'') of
             Inl e \<Rightarrow> Inl e
           | Inr acc \<Rightarrow>
               train_mnist_loop fw train_loader test_loader rest model' optimizer'
                 (if i mod 5 = 0 then files(''./model.pth'' \<mapsto> model') else files)))"

definition train_mnist ::
  "('w, 'l, 'b) framework \<Rightarrow> config \<Rightarrow> (string \<rightharpoonup> 'w) \<Rightarrow> exn + (string \<rightharpoonup> 'w)" where
  "train_mnist fw config files =
     (let model = ConvNet fw in
      case get_data_loaders fw of (train_loader, test_loader) \<Rightarrow>
        (case dict_index config ''lr'' of
           Inl e \<Rightarrow> Inl e
         | Inr lr' \<Rightarrow>
             (case dict_index config ''momentum'' of
                Inl e \<Rightarrow> Inl e
              | Inr momentum' \<Rightarrow>
                  (case SGD model lr' momentum' of
                     Inl e \<Rightarrow> Inl e
                   | Inr optimizer \<Rightarrow>
                       train_mnist_loop fw train_loader test_loader [0..<20] model
                         optimizer files))))"

section \<open>The class-form trainable\<close>

text \<open>
  \<^verbatim>\<open>
  class PytorchTrainble(tune.Trainable):
      def _setup(self, config):
          self.device = torch.device("cpu")
          self.train_loader, self.test_loader = get_data_loaders()
          self.model = ConvNet().to(self.device)
          self.optimizer = optim.SGD(
              self.model.parameters(),
              lr=config.get("lr", 0.01),
              momentum=config.get("momentum", 0.9))

      def _train(self):
          train(self.model, self.optimizer, self.train_loader, device=self.device)
          acc = test(self.model, self.test_loader, self.device)
          return {"mean_accuracy": acc}

      def _save(self, checkpoint_dir):
          checkpoint_path = os.path.join(checkpoint_dir, "model.pth")
          torch.save(self.model.state_dict(), checkpoint_path)
          return checkpoint_path

      def _restore(self, checkpoint_path):
          self.model.load_state_dict(torch.load(checkpoint_path))

      def reset_config(self, new_config):
          del self.optimizer
          self.optimizer = optim.SGD(
              self.model.parameters(),
              lr=new_config.get("lr", 0.01),
              momentum=new_config.get("momentum", 0.9))
          return True
  \<close>
  An instance is the record of its five attributes. The base class runs \<open>_setup\<close>
  when it constructs an instance, so there is an instance only when \<open>_setup\<close> has
  returned, and it then has all five. The one attribute that can be missing later is the
  optimizer: \<open>reset_config\<close> deletes it before it builds the new one, and when the
  constructor raises, the instance is left without. The field is therefore optional,
  \<open>None\<close> for the deleted attribute, and reading or deleting it then raises
  \<open>AttributeError\<close>.

  Each method takes the instance and returns it updated, next to its return value; the
  methods that write or read a checkpoint also take the files, a map from paths to saved
  state dicts. \<open>reset_config\<close> returns the instance as the call leaves it also when
  it raises. The method names lose their leading underscore, which an Isabelle name
  cannot have.
\<close>

record ('w, 'l, 'b) PytorchTrainble =
  device :: device
  train_loader :: 'l
  test_loader :: 'l
  model :: 'w
  optimizer :: "'b optimizer option"

definition trainable_setup ::
  "('w, 'l, 'b) framework \<Rightarrow> config \<Rightarrow> exn + ('w, 'l, 'b) PytorchTrainble" where
  "trainable_setup fw config =
     (case get_data_loaders fw of (train_loader', test_loader') \<Rightarrow>
        (let model' = ConvNet fw in
         case SGD model' (dict_get config ''lr'' 0.01) (dict_get config ''momentum'' 0.9) of
           Inl e \<Rightarrow> Inl e
         | Inr optimizer' \<Rightarrow>
             Inr \<lparr>device = Device ''cpu'',
                  train_loader = train_loader',
                  test_loader = test_loader',
                  model = model',
                  optimizer = Some optimizer'\<rparr>))"

definition trainable_train ::
  "('w, 'l, 'b) framework \<Rightarrow> ('w, 'l, 'b) PytorchTrainble
     \<Rightarrow> exn + (string \<times> real) list \<times> ('w, 'l, 'b) PytorchTrainble" where
  "trainable_train fw self =
     (case optimizer self of
        None \<Rightarrow> Inl (AttributeError ''optimizer'')
      | Some optimizer0 \<Rightarrow>
          (case train fw (model self) optimizer0 (train_loader self) (device self) of
             Inl e \<Rightarrow> Inl e
           | Inr (model', optimizer') \<Rightarrow>
               (case test fw model' (test_loader self) (device self) of
                  Inl e \<Rightarrow> Inl e
                | Inr acc \<Rightarrow>
                    Inr ([(''mean_accuracy'', acc)],
                         self\<lparr>model := model', optimizer := Some optimizer'\<rparr>))))"

definition trainable_save ::
  "('w, 'l, 'b) PytorchTrainble \<Rightarrow> (string \<rightharpoonup> 'w) \<Rightarrow> string \<Rightarrow> string \<times> (string \<rightharpoonup> 'w)" where
  "trainable_save self files checkpoint_dir =
     (let checkpoint_path = os_path_join checkpoint_dir ''model.pth''
      in (checkpoint_path, files(checkpoint_path \<mapsto> model self)))"

definition trainable_restore ::
  "('w, 'l, 'b) PytorchTrainble \<Rightarrow> (string \<rightharpoonup> 'w) \<Rightarrow> string
     \<Rightarrow> exn + ('w, 'l, 'b) PytorchTrainble" where
  "trainable_restore self files checkpoint_path =
     (case files checkpoint_path of
        None \<Rightarrow> Inl (FileNotFoundError checkpoint_path)
      | Some state_dict \<Rightarrow> Inr (self\<lparr>model := state_dict\<rparr>))"

definition reset_config ::
  "('w, 'l, 'b) PytorchTrainble \<Rightarrow> config \<Rightarrow> (exn + bool) \<times> ('w, 'l, 'b) PytorchTrainble" where
  "reset_config self new_config =
     (case optimizer self of
        None \<Rightarrow> (Inl (AttributeError ''optimizer''), self)
      | Some _ \<Rightarrow>
          (let self' = self\<lparr>optimizer := None\<rparr> in
           case SGD (model self') (dict_get new_config ''lr'' 0.01)
                                  (dict_get new_config ''momentum'' 0.9) of
             Inl e \<Rightarrow> (Inl e, self')
           | Inr optimizer' \<Rightarrow> (Inr True, self'\<lparr>optimizer := Some optimizer'\<rparr>)))"

section \<open>The run entry point\<close>

text \<open>
  Modelled from the spec: the run entry point that executes the trials is the external
  library's and is not under \<open>src/\<close>. The spec gives a trial "a status
  (running/stopped/errored)", says that the entry point "executes many configurations of
  the trainable unit", and that an exception of the trainable unit is "captured by the
  external coordinator and surfaced as a per-configuration error artifact", "caught and
  recorded by the external library per trial", and does "not abort other trials".

  A finished trial is therefore either terminated with what the trainable left behind, or
  errored with the exception in its error artifact, and the run has one trial per
  configuration, each the outcome of the trainable on that configuration alone.
\<close>

datatype trial_status = TERMINATED | ERROR

record 'r trial =
  trial_config :: config
  status :: trial_status
  error_file :: "exn option"
  outcome :: "'r option"

definition run_trial :: "(config \<Rightarrow> exn + 'r) \<Rightarrow> config \<Rightarrow> 'r trial" where
  "run_trial trainable c =
     (case trainable c of
        Inl e \<Rightarrow> \<lparr>trial_config = c, status = ERROR, error_file = Some e, outcome = None\<rparr>
      | Inr r \<Rightarrow> \<lparr>trial_config = c, status = TERMINATED, error_file = None, outcome = Some r\<rparr>)"

definition tune_run :: "(config \<Rightarrow> exn + 'r) \<Rightarrow> config list \<Rightarrow> 'r trial list" where
  "tune_run trainable configs = map (run_trial trainable) configs"

section \<open>Configuration spaces and grid enumeration\<close>

text \<open>
  Modelled from the spec: the expansion of a configuration space into configurations is
  the external library's and is not under \<open>src/\<close>; the notebook only shows calls of
  \<open>tune.grid_search\<close> and says that four grids of three values "will generate a total
  3 * 3 * 3 * 3 = 81 trials". The spec describes a space as a mapping from a name to "a
  value or a value-generating rule", and grid enumeration as the "cross-product over all
  grid dimensions, producing one configuration per combination".

  A space lists its dimensions in order; a dimension is a literal constant or a grid of
  values. The enumeration picks, for each dimension in turn, the constant or one value of
  the grid. Rules that draw a random value add no combination and are not part of this
  model.
\<close>

datatype 'v rule = Fixed 'v | grid_search "'v list"

fun rule_values :: "'v rule \<Rightarrow> 'v list" where
  "rule_values (Fixed v) = [v]"
| "rule_values (grid_search vs) = vs"

fun grid_configurations :: "(string \<times> 'v rule) list \<Rightarrow> (string \<times> 'v) list list" where
  "grid_configurations [] = [[]]"
| "grid_configurations ((name, r) # rest) =
     concat (map (\<lambda>v. map (\<lambda>c. (name, v) # c) (grid_configurations rest)) (rule_values r))"

section \<open>A small framework for concrete runs\<close>

text \<open>
  A concrete framework on which the operations can be evaluated. A model is a counter of
  the training steps it has had. \<open>train\<close> diverges at once when the learning rate is
  above one half, and at its third step when the learning rate is above one quarter;
  otherwise it counts one step. \<open>test\<close> fails on the model that has had a hundred
  steps.
\<close>

definition example_framework :: "(nat, unit, unit) framework" where
  "example_framework =
     \<lparr>ConvNet = 0,
      get_data_loaders = ((), ()),
      train = (\<lambda>m opt l d. if lr opt > 1 / 2 \<or> (lr opt > 1 / 4 \<and> m = 2)
                             then Inl (FrameworkError ''diverged'')
                             else Inr (Suc m, opt)),
      test = (\<lambda>m l d. if m = 100 then Inl (FrameworkError ''bad batch'') else Inr (1 / 2))\<rparr>"

definition example_trainable :: "nat \<Rightarrow> real \<Rightarrow> (nat, unit, unit) PytorchTrainble" where
  "example_trainable m l =
     \<lparr>device = Device ''cpu'', train_loader = (), test_loader = (), model = m,
      optimizer = Some \<lparr>lr = l, momentum = 9 / 10, buffers = None\<rparr>\<rparr>"

definition example_config :: "real \<Rightarrow> config" where
  "example_config l = [''lr'' \<mapsto> l, ''momentum'' \<mapsto> 9 / 10]"

section \<open>The slow function and the order of its results\<close>

lemma exercise1_loop_value: "exercise1_loop = [0, 1, 2, 3]"
  by (simp add: exercise1_loop_def slow_function_def upt_rec)

lemma fold_remote:
  "fold (\<lambda>i (results, tasks). case remote i tasks of (oid, tasks') \<Rightarrow> (results @ [oid], tasks'))
        args (rs, ts)
   = (rs @ [length ts..<length ts + length args],
      ts @ zip [length ts..<length ts + length args] args)"
proof (induction args arbitrary: rs ts)
  case Nil
  then show ?case by simp
next
  case (Cons a args)
  have "[length ts..<length ts + length (a # args)]
        = length ts # [Suc (length ts)..<Suc (length ts) + length args]"
    by (simp add: upt_conv_Cons del: upt_Suc)
  with Cons.IH [of "rs @ [length ts]" "ts @ [(length ts, a)]"] show ?case
    by (simp add: remote_def del: upt_Suc)
qed

lemma remote_loop_eq: "remote_loop args = ([0..<length args], zip [0..<length args] args)"
  unfolding remote_loop_def using fold_remote [of args "[]" "[]"] by simp

lemma finished_snoc: "finished f (xs @ [(k, x)]) = (finished f xs)(k \<mapsto> f x)"
  by (simp add: finished_def)

lemma finished_lookup:
  "(k, x) \<in> set xs \<Longrightarrow> \<forall>y. (k, y) \<in> set xs \<longrightarrow> y = x \<Longrightarrow> finished f xs k = Some (f x)"
proof (induction xs rule: rev_induct)
  case Nil
  then show ?case by simp
next
  case (snoc p xs)
  obtain k' x' where p: "p = (k', x')" by (cases p)
  show ?case
  proof (cases "k' = k")
    case True
    from snoc.prems(2) have "(k, x') \<in> set (xs @ [p]) \<longrightarrow> x' = x"
      by (rule spec)
    with p True have "x' = x" by simp
    with True p show ?thesis by (simp add: finished_snoc)
  next
    case False
    from snoc.prems(1) p False have mem: "(k, x) \<in> set xs"
      by simp
    have "\<forall>y. (k, y) \<in> set xs \<longrightarrow> y = x"
    proof (intro allI impI)
      fix y
      assume "(k, y) \<in> set xs"
      then have "(k, y) \<in> set (xs @ [p])" by simp
      with snoc.prems(2) show "y = x" by blast
    qed
    with mem have "finished f xs k = Some (f x)" by (rule snoc.IH)
    with False p show ?thesis by (simp add: finished_snoc)
  qed
qed

lemma those_map_Some:
  "(\<And>i. i \<in> set ids \<Longrightarrow> store i = Some (g i)) \<Longrightarrow> those (map store ids) = Some (map g ids)"
  by (induction ids) simp_all

text \<open>
  Whatever the arguments and the function, and in whatever order the tasks finish, the
  values come back in the order of submission.
\<close>

lemma ray_get_submission_order:
  assumes "remote_loop args = (ids, tasks)" and "mset order = mset tasks"
  shows "ray_get (finished f order) ids = Some (map f args)"
proof -
  let ?n = "length args"
  from assms(1) have ids: "ids = [0..<?n]" and tasks: "tasks = zip [0..<?n] args"
    by (auto simp: remote_loop_eq)
  from assms(2) have set_eq: "set order = set tasks"
    by (rule mset_eq_setD)
  have lookup: "finished f order i = Some (f (args ! i))" if "i \<in> set ids" for i
  proof (rule finished_lookup)
    from that ids have "i < ?n" by simp
    then have "zip [0..<?n] args ! i \<in> set (zip [0..<?n] args)"
      by (intro nth_mem) simp
    with \<open>i < ?n\<close> show "(i, args ! i) \<in> set order"
      unfolding set_eq tasks by simp
    show "\<forall>y. (i, y) \<in> set order \<longrightarrow> y = args ! i"
      unfolding set_eq tasks by (auto simp: in_set_zip)
  qed
  have "ray_get (finished f order) ids = Some (map (\<lambda>i. f (args ! i)) ids)"
    unfolding ray_get_def by (rule those_map_Some) (rule lookup)
  also have "map (\<lambda>i. f (args ! i)) ids = map f args"
    unfolding ids by (rule nth_equalityI) simp_all
  finally show ?thesis .
qed

text \<open>
  Claim C3. \<open>slow_function\<close> returns its own argument, and the four calls on the inputs
  0 to 3 give the list \<open>[0, 1, 2, 3]\<close>: in the loop as the notebook has it, and, when
  the calls are remote, for every order in which the four tasks finish, since resolving
  the list of handles reads each task's value under its own handle in the order of
  submission.
\<close>

theorem slow_function_results_in_order:
  assumes "remote_loop (map int [0..<4]) = (ids, tasks)" and "mset order = mset tasks"
  shows "exercise1_loop = [0, 1, 2, 3]
         \<and> slow_function i = i
         \<and> ray_get (finished slow_function order) ids = Some [0, 1, 2, 3]"
proof -
  have "map slow_function (map int [0..<4]) = [0, 1, 2, 3]"
    by (simp add: slow_function_def upt_rec)
  with ray_get_submission_order [OF assms, of slow_function] show ?thesis
    by (simp add: exercise1_loop_value slow_function_def)
qed

theorem slow_function_results_in_order_witness:
  "remote_loop (map int [0..<4]) = ([0, 1, 2, 3], [(0, 0), (1, 1), (2, 2), (3, 3)])
   \<and> mset [(3, 3), (1, 1), (0, 0), (2, 2)] = mset [(0::nat, 0::int), (1, 1), (2, 2), (3, 3)]
   \<and> exercise1_loop = [0, 1, 2, 3]
   \<and> ray_get (finished slow_function [(3, 3), (1, 1), (0, 0), (2, 2)]) [0, 1, 2, 3]
       = Some [0, 1, 2, 3 :: int]"
proof -
  have a: "remote_loop (map int [0..<4]) = ([0, 1, 2, 3], [(0, 0), (1, 1), (2, 2), (3, 3)])"
    by (simp add: remote_loop_eq upt_rec)
  have b: "mset [(3, 3), (1, 1), (0, 0), (2, 2)] = mset [(0::nat, 0::int), (1, 1), (2, 2), (3, 3)]"
    by simp
  note t = slow_function_results_in_order [OF a b, of 0]
  show ?thesis
    by (rule conjI [OF a conjI [OF b conjI [OF t [THEN conjunct1] t [THEN conjunct2, THEN conjunct2]]]])
qed

section \<open>The loss of the pipeline\<close>

lemma mean_ones: "0 < n \<Longrightarrow> np_mean_axis0 (np_ones n m) = replicate m 1"
  apply (cases n)
   apply (simp_all add: np_mean_axis0_def np_ones_def shape_def)
  apply (rule nth_equalityI)
   apply simp
  apply (simp add: sum_list_replicate)
  done

lemma map2_sub_replicate:
  "map2 (-) (replicate m (a::real)) (replicate m b) = replicate m (a - b)"
  by (induction m) simp_all

lemma normalize_ones: "0 < n \<Longrightarrow> normalize_data (np_ones n m) = replicate n (replicate m 0)"
  by (simp add: normalize_data_def mean_ones sub_broadcast_def)
     (simp add: np_ones_def map2_sub_replicate)

lemma extract_zero:
  "extract_features (replicate n (replicate m 0)) = replicate n (replicate (2 * m) 0)"
  by (simp add: extract_features_def np_hstack_def np_square_def
      map_replicate_const replicate_add [symmetric] mult_2)

lemma shape_replicate: "0 < n \<Longrightarrow> shape (replicate n (replicate k x)) = (n, k)"
  by (cases n) (simp_all add: shape_def)

lemma dot_zero: "np_dot (replicate n (replicate k 0)) (replicate k 1) = replicate n 0"
  by (simp add: np_dot_def sum_list_replicate)

lemma loss_zero: "0 < n \<Longrightarrow> compute_loss (replicate n (replicate k 0)) = real n"
  by (simp add: compute_loss_def shape_replicate dot_zero np_ones1_def map2_sub_replicate
      sum_list_replicate)

lemma file_loss_1000: "file_loss filename = 1000"
  by (simp add: file_loss_def load_data_def normalize_ones extract_zero loss_zero)

lemma losses_loop_guarded:
  "\<forall>filename \<in> set fs. snd (clock filename) - fst (clock filename) < 0.1
   \<Longrightarrow> losses_loop clock fs losses = Inr (losses @ map file_loss fs)"
  by (induction fs arbitrary: losses) (auto split: prod.splits)

text \<open>
  Claim C1. In the pipeline \<open>load_data\<close> returns the 1000 by 100 matrix of ones,
  \<open>normalize_data\<close> subtracts the column means, \<open>extract_features\<close> stacks the
  normalized data beside its square, and \<open>compute_loss\<close> sums the squared differences
  between the product of the features with a vector of ones and a vector of ones. The
  loss of each file is exactly 1000 and the sum over the four files exactly 4000, which
  is what the loop returns whenever its timing guard lets every iteration pass.
\<close>

theorem pipeline_loss_4000:
  "load_data filename = replicate 1000 (replicate 100 1)
   \<and> np_mean_axis0 (load_data filename) = replicate 100 1
   \<and> normalize_data (load_data filename) = replicate 1000 (replicate 100 0)
   \<and> extract_features (normalize_data (load_data filename)) = replicate 1000 (replicate 200 0)
   \<and> file_loss filename = 1000
   \<and> sum_list (map file_loss filenames) = 4000
   \<and> ((\<forall>f \<in> set filenames. snd (clock f) - fst (clock f) < 0.1)
        \<longrightarrow> pipeline_loss clock = Inr 4000)"
proof -
  have a: "load_data filename = replicate 1000 (replicate 100 1)"
    by (simp add: load_data_def np_ones_def)
  have b: "np_mean_axis0 (load_data filename) = replicate 100 1"
    by (simp add: load_data_def mean_ones)
  have c: "normalize_data (load_data filename) = replicate 1000 (replicate 100 0)"
    by (simp add: load_data_def normalize_ones)
  have d: "extract_features (normalize_data (load_data filename))
           = replicate 1000 (replicate 200 0)"
    unfolding c extract_zero by simp
  have e: "sum_list (map file_loss filenames) = 4000"
    by (simp add: filenames_def file_loss_1000)
  have f: "pipeline_loss clock = Inr 4000"
    if "\<forall>f \<in> set filenames. snd (clock f) - fst (clock f) < 0.1"
    unfolding pipeline_loss_def losses_loop_guarded [OF that]
    using e by simp
  from a b c d e f show ?thesis
    by (simp add: file_loss_1000)
qed

theorem pipeline_loss_4000_witness:
  "snd (0 :: real, 0.05 :: real) - fst (0 :: real, 0.05 :: real) < 0.1
   \<and> file_loss ''file1'' = 1000
   \<and> pipeline_loss (\<lambda>_. (0, 0.05)) = Inr 4000"
  using pipeline_loss_4000 [of "''file1''" "\<lambda>_. (0, 0.05)"] by simp

section \<open>The size of a grid\<close>

lemma length_grid_configurations:
  "length (grid_configurations space)
   = prod_list (map (\<lambda>(name, r). length (rule_values r)) space)"
proof (induction space)
  case Nil
  then show ?case by simp
next
  case (Cons d space)
  obtain name r where d: "d = (name, r)" by (cases d)
  have "length (concat (map (\<lambda>v. map (\<lambda>c. (name, v) # c) (grid_configurations space)) vs))
        = length vs * length (grid_configurations space)" for vs
    by (induction vs) simp_all
  with Cons d show ?case by simp
qed

lemma in_grid_configurations:
  "c \<in> set (grid_configurations space) \<longleftrightarrow>
     list_all2 (\<lambda>(name, r) (name', v). name' = name \<and> v \<in> set (rule_values r)) space c"
proof (induction space arbitrary: c)
  case Nil
  then show ?case by auto
next
  case (Cons d space)
  obtain name r where d: "d = (name, r)" by (cases d)
  have "c \<in> set (grid_configurations (d # space)) \<longleftrightarrow>
          (\<exists>v c'. c = (name, v) # c' \<and> v \<in> set (rule_values r)
                  \<and> c' \<in> set (grid_configurations space))"
    unfolding d by auto
  also have "\<dots> \<longleftrightarrow>
          (\<exists>v c'. c = (name, v) # c' \<and> v \<in> set (rule_values r) \<and>
             list_all2 (\<lambda>(name, r) (name', v). name' = name \<and> v \<in> set (rule_values r))
               space c')"
    by (simp only: Cons.IH)
  also have "\<dots> \<longleftrightarrow>
          list_all2 (\<lambda>(name, r) (name', v). name' = name \<and> v \<in> set (rule_values r))
            (d # space) c"
    unfolding d by (cases c) auto
  finally show ?case .
qed

lemma distinct_grid_configurations:
  "\<forall>(name, r) \<in> set space. distinct (rule_values r) \<Longrightarrow> distinct (grid_configurations space)"
proof (induction space)
  case Nil
  then show ?case by simp
next
  case (Cons d space)
  obtain name r where d: "d = (name, r)" by (cases d)
  from Cons.prems d have dr: "distinct (rule_values r)" by simp
  from Cons have dg: "distinct (grid_configurations space)" by simp
  have "distinct (concat (map (\<lambda>v. map (\<lambda>c. (name, v) # c) (grid_configurations space)) vs))"
    if "distinct vs" for vs
    using that dg
    by (induction vs) (auto simp: distinct_map inj_on_def)
  with dr d show ?case by simp
qed

text \<open>
  Claim C2. Grid enumeration of a configuration space is the cross-product over its grid
  dimensions, with exactly one configuration per combination of grid values: the number
  of configurations is the product of the sizes of the dimensions, a configuration is
  enumerated exactly when it picks one value of each dimension in turn, and none is
  enumerated twice when no grid repeats a value. Two grids of five values, for \<open>lr\<close> and
  \<open>momentum\<close>, give exactly twenty-five configurations, and the four grids of three
  values of the notebook give exactly eighty-one.
\<close>

theorem grid_search_cross_product:
  "length (grid_configurations space)
     = prod_list (map (\<lambda>(name, r). length (rule_values r)) space)
   \<and> (c \<in> set (grid_configurations space) \<longleftrightarrow>
        list_all2 (\<lambda>(name, r) (name', v). name' = name \<and> v \<in> set (rule_values r)) space c)
   \<and> ((\<forall>(name, r) \<in> set space. distinct (rule_values r))
        \<longrightarrow> distinct (grid_configurations space))
   \<and> (length lrs = 5 \<and> length momenta = 5 \<longrightarrow>
        length (grid_configurations [(''lr'', grid_search lrs), (''momentum'', grid_search momenta)])
          = 25)
   \<and> length (grid_configurations
         [(''variable1'', grid_search [1, 2, 3 :: int]),
          (''variable2'', grid_search [1, 2, 3]),
          (''variable3'', grid_search [1, 2, 3]),
          (''variable4'', grid_search [1, 2, 3])]) = 81"
proof (intro conjI impI)
  show "length (grid_configurations space)
          = prod_list (map (\<lambda>(name, r). length (rule_values r)) space)"
    by (rule length_grid_configurations)
  show "c \<in> set (grid_configurations space) \<longleftrightarrow>
        list_all2 (\<lambda>(name, r) (name', v). name' = name \<and> v \<in> set (rule_values r)) space c"
    by (rule in_grid_configurations)
  show "distinct (grid_configurations space)"
    if "\<forall>(name, r) \<in> set space. distinct (rule_values r)"
    using that by (rule distinct_grid_configurations)
  show "length (grid_configurations [(''lr'', grid_search lrs), (''momentum'', grid_search momenta)])
          = 25"
    if "length lrs = 5 \<and> length momenta = 5"
    using that by (subst length_grid_configurations) simp
  show "length (grid_configurations
         [(''variable1'', grid_search [1, 2, 3 :: int]),
          (''variable2'', grid_search [1, 2, 3]),
          (''variable3'', grid_search [1, 2, 3]),
          (''variable4'', grid_search [1, 2, 3])]) = 81"
    by (subst length_grid_configurations) simp
qed

theorem grid_search_cross_product_witness:
  "distinct [0.001, 0.01, 0.1, 0.5, 0.9 :: real]
   \<and> length [0.001, 0.01, 0.1, 0.5, 0.9 :: real] = 5
   \<and> [(''lr'', 0.5), (''momentum'', 0.01)]
        \<in> set (grid_configurations [(''lr'', grid_search [0.001, 0.01, 0.1, 0.5, 0.9 :: real]),
                                     (''momentum'', grid_search [0.001, 0.01, 0.1, 0.5, 0.9])])
   \<and> distinct (grid_configurations [(''lr'', grid_search [0.001, 0.01, 0.1, 0.5, 0.9 :: real]),
                                     (''momentum'', grid_search [0.001, 0.01, 0.1, 0.5, 0.9])])
   \<and> length (grid_configurations [(''lr'', grid_search [0.001, 0.01, 0.1, 0.5, 0.9 :: real]),
                                   (''momentum'', grid_search [0.001, 0.01, 0.1, 0.5, 0.9])]) = 25"
proof -
  let ?vs = "[0.001, 0.01, 0.1, 0.5, 0.9 :: real]"
  let ?space = "[(''lr'', grid_search ?vs), (''momentum'', grid_search ?vs)]"
  let ?c = "[(''lr'', 0.5 :: real), (''momentum'', 0.01)]"
  note t = grid_search_cross_product [of ?space ?c ?vs ?vs]
  have h1: "\<forall>(name, r) \<in> set ?space. distinct (rule_values r)"
    by simp
  have h2: "length ?vs = 5"
    by simp
  have m: "list_all2 (\<lambda>(name, r) (name', v). name' = name \<and> v \<in> set (rule_values r)) ?space ?c"
    by simp
  from t m have c1: "?c \<in> set (grid_configurations ?space)"
    by blast
  from t h1 have c2: "distinct (grid_configurations ?space)"
    by blast
  from t h2 have c3: "length (grid_configurations ?space) = 25"
    by blast
  have h0: "distinct ?vs"
    by simp
  from h0 h2 c1 c2 c3 show ?thesis
    by (intro conjI)
qed

section \<open>Checkpoints\<close>

text \<open>
  Claim C8. For any instance, \<open>_save\<close> returns the path of \<open>model.pth\<close> in the
  checkpoint directory and leaves the model's state dict in that file. A \<open>_restore\<close>
  on the returned path, into any instance, succeeds and gives that instance the saved
  state dict; into the instance that saved, it leaves the instance as it was at save
  time. For a directory name that is not empty and has no trailing slash the path is the
  name followed by \<open>/model.pth\<close>.
\<close>

theorem save_restore_roundtrip:
  "fst (trainable_save self files checkpoint_dir) = os_path_join checkpoint_dir ''model.pth''
   \<and> snd (trainable_save self files checkpoint_dir) (os_path_join checkpoint_dir ''model.pth'')
       = Some (model self)
   \<and> trainable_restore other (snd (trainable_save self files checkpoint_dir))
         (fst (trainable_save self files checkpoint_dir))
       = Inr (other\<lparr>model := model self\<rparr>)
   \<and> trainable_restore self (snd (trainable_save self files checkpoint_dir))
         (fst (trainable_save self files checkpoint_dir))
       = Inr self
   \<and> (checkpoint_dir \<noteq> [] \<and> last checkpoint_dir \<noteq> CHR ''/''
        \<longrightarrow> fst (trainable_save self files checkpoint_dir) = checkpoint_dir @ ''/model.pth'')"
  by (simp add: trainable_save_def trainable_restore_def os_path_join_def Let_def)

theorem save_restore_roundtrip_witness:
  "''ckpt'' \<noteq> [] \<and> last ''ckpt'' \<noteq> CHR ''/''
   \<and> fst (trainable_save (example_trainable 7 (1 / 10)) Map.empty ''ckpt'') = ''ckpt/model.pth''
   \<and> trainable_restore (example_trainable 9 (1 / 2))
        (snd (trainable_save (example_trainable 7 (1 / 10)) Map.empty ''ckpt''))
        (fst (trainable_save (example_trainable 7 (1 / 10)) Map.empty ''ckpt''))
      = Inr ((example_trainable 9 (1 / 2))\<lparr>model := model (example_trainable 7 (1 / 10))\<rparr>)"
proof -
  have h: "''ckpt'' \<noteq> [] \<and> last ''ckpt'' \<noteq> CHR ''/''"
    by simp
  note t = save_restore_roundtrip
    [of "example_trainable 7 (1 / 10)" Map.empty "''ckpt''" "example_trainable 9 (1 / 2)"]
  from t h
  have a: "fst (trainable_save (example_trainable 7 (1 / 10)) Map.empty ''ckpt'')
           = ''ckpt'' @ ''/model.pth''"
    by blast
  from t
  have b: "trainable_restore (example_trainable 9 (1 / 2))
        (snd (trainable_save (example_trainable 7 (1 / 10)) Map.empty ''ckpt''))
        (fst (trainable_save (example_trainable 7 (1 / 10)) Map.empty ''ckpt''))
      = Inr ((example_trainable 9 (1 / 2))\<lparr>model := model (example_trainable 7 (1 / 10))\<rparr>)"
    by blast
  from a have a': "fst (trainable_save (example_trainable 7 (1 / 10)) Map.empty ''ckpt'')
           = ''ckpt/model.pth''"
    by simp
  from h have h1: "''ckpt'' \<noteq> []" and h2: "last ''ckpt'' \<noteq> CHR ''/''"
    by simp_all
  show ?thesis
    by (rule conjI [OF h1 conjI [OF h2 conjI [OF a' b]]])
qed

section \<open>Reconfiguring the class-form trainable\<close>

text \<open>
  Claim C6, as the code has it. On an instance that has its optimizer, and with a new
  configuration whose \<open>lr\<close> and \<open>momentum\<close> (0.01 and 0.9 where the configuration
  has none) are not negative, \<open>reset_config\<close> returns \<open>True\<close> and replaces only the
  optimizer: the new one is a fresh SGD optimizer with these two values, while the model
  with its weights, the device and the two data loaders stay as they were, and a
  checkpoint taken after the call holds the same weights as one taken before it. With a
  negative \<open>lr\<close>, or a negative \<open>momentum\<close>, the constructor raises
  \<open>ValueError\<close> after the old optimizer has been deleted: the call returns nothing and
  leaves the instance without an optimizer, the rest unchanged.
\<close>

theorem reset_config_replaces_only_optimizer:
  assumes "optimizer self = Some old"
    and "0 \<le> (case new_config ''lr'' of None \<Rightarrow> 0.01 | Some v \<Rightarrow> v)"
    and "0 \<le> (case new_config ''momentum'' of None \<Rightarrow> 0.9 | Some v \<Rightarrow> v)"
    and "bad_lr ''lr'' = Some l" and "l < 0"
    and "0 \<le> (case bad_momentum ''lr'' of None \<Rightarrow> 0.01 | Some v \<Rightarrow> v)"
    and "bad_momentum ''momentum'' = Some m" and "m < 0"
  shows "(\<exists>self'. reset_config self new_config = (Inr True, self')
            \<and> model self' = model self
            \<and> device self' = device self
            \<and> train_loader self' = train_loader self
            \<and> test_loader self' = test_loader self
            \<and> optimizer self'
                = Some \<lparr>lr = (case new_config ''lr'' of None \<Rightarrow> 0.01 | Some v \<Rightarrow> v),
                         momentum = (case new_config ''momentum'' of None \<Rightarrow> 0.9 | Some v \<Rightarrow> v),
                         buffers = None\<rparr>
            \<and> trainable_save self' files checkpoint_dir
                = trainable_save self files checkpoint_dir)
       \<and> reset_config self bad_lr
           = (Inl (ValueError ''Invalid learning rate''), self\<lparr>optimizer := None\<rparr>)
       \<and> reset_config self bad_momentum
           = (Inl (ValueError ''Invalid momentum value''), self\<lparr>optimizer := None\<rparr>)"
proof (intro conjI)
  show "\<exists>self'. reset_config self new_config = (Inr True, self')
            \<and> model self' = model self
            \<and> device self' = device self
            \<and> train_loader self' = train_loader self
            \<and> test_loader self' = test_loader self
            \<and> optimizer self'
                = Some \<lparr>lr = (case new_config ''lr'' of None \<Rightarrow> 0.01 | Some v \<Rightarrow> v),
                         momentum = (case new_config ''momentum'' of None \<Rightarrow> 0.9 | Some v \<Rightarrow> v),
                         buffers = None\<rparr>
            \<and> trainable_save self' files checkpoint_dir
                = trainable_save self files checkpoint_dir"
    using assms(1,2,3)
    by (simp add: reset_config_def SGD_def dict_get_def trainable_save_def Let_def
        split: option.splits)
  show "reset_config self bad_lr
           = (Inl (ValueError ''Invalid learning rate''), self\<lparr>optimizer := None\<rparr>)"
    using assms(1,4,5) by (simp add: reset_config_def SGD_def dict_get_def Let_def)
  show "reset_config self bad_momentum
           = (Inl (ValueError ''Invalid momentum value''), self\<lparr>optimizer := None\<rparr>)"
    using assms(1,6,7,8)
    by (simp add: reset_config_def SGD_def dict_get_def Let_def split: option.splits)
qed

theorem reset_config_replaces_only_optimizer_witness:
  "optimizer (example_trainable 7 (1 / 10)) = Some \<lparr>lr = 1 / 10, momentum = 9 / 10, buffers = None\<rparr>
   \<and> (0 :: real) \<le> (case [''lr'' \<mapsto> 1 / 2 :: real] ''lr'' of None \<Rightarrow> 0.01 | Some v \<Rightarrow> v)
   \<and> (0 :: real) \<le> (case [''lr'' \<mapsto> 1 / 2 :: real] ''momentum'' of None \<Rightarrow> 0.9 | Some v \<Rightarrow> v)
   \<and> [''lr'' \<mapsto> - 1 :: real] ''lr'' = Some (- 1) \<and> (- 1 :: real) < 0
   \<and> (0 :: real) \<le> (case [''momentum'' \<mapsto> - 1 :: real] ''lr'' of None \<Rightarrow> 0.01 | Some v \<Rightarrow> v)
   \<and> [''momentum'' \<mapsto> - 1 :: real] ''momentum'' = Some (- 1)
   \<and> reset_config (example_trainable 7 (1 / 10)) [''lr'' \<mapsto> 1 / 2]
       = (Inr True, (example_trainable 7 (1 / 10))
            \<lparr>optimizer := Some \<lparr>lr = 1 / 2, momentum = 0.9, buffers = None\<rparr>\<rparr>)
   \<and> reset_config (example_trainable 7 (1 / 10)) [''momentum'' \<mapsto> - 1]
       = (Inl (ValueError ''Invalid momentum value''),
          (example_trainable 7 (1 / 10))\<lparr>optimizer := None\<rparr>)"
proof -
  let ?self = "example_trainable 7 (1 / 10)"
  have h1: "optimizer ?self = Some \<lparr>lr = 1 / 10, momentum = 9 / 10, buffers = None\<rparr>"
    by (simp add: example_trainable_def)
  have h2: "(0 :: real) \<le> (case [''lr'' \<mapsto> 1 / 2 :: real] ''lr'' of None \<Rightarrow> 0.01 | Some v \<Rightarrow> v)"
    by simp
  have h3: "(0 :: real) \<le> (case [''lr'' \<mapsto> 1 / 2 :: real] ''momentum'' of None \<Rightarrow> 0.9 | Some v \<Rightarrow> v)"
    by simp
  have h4: "[''lr'' \<mapsto> - 1 :: real] ''lr'' = Some (- 1)"
    by simp
  have h5: "(- 1 :: real) < 0"
    by simp
  have h6: "(0 :: real) \<le> (case [''momentum'' \<mapsto> - 1 :: real] ''lr'' of None \<Rightarrow> 0.01 | Some v \<Rightarrow> v)"
    by simp
  have h7: "[''momentum'' \<mapsto> - 1 :: real] ''momentum'' = Some (- 1)"
    by simp
  note t = reset_config_replaces_only_optimizer
    [where self = "?self" and new_config = "[''lr'' \<mapsto> 1 / 2]"
       and bad_lr = "[''lr'' \<mapsto> - 1]" and bad_momentum = "[''momentum'' \<mapsto> - 1]"
       and l = "- 1" and m = "- 1",
     OF h1 h2 h3 h4 h5 h6 h7 h5]
  from t obtain self' where
    r: "reset_config ?self [''lr'' \<mapsto> 1 / 2] = (Inr True, self')"
    and f: "model self' = model ?self" "device self' = device ?self"
      "train_loader self' = train_loader ?self" "test_loader self' = test_loader ?self"
    and o: "optimizer self'
             = Some \<lparr>lr = (case [''lr'' \<mapsto> 1 / 2 :: real] ''lr'' of None \<Rightarrow> 0.01 | Some v \<Rightarrow> v),
                      momentum = (case [''lr'' \<mapsto> 1 / 2 :: real] ''momentum'' of None \<Rightarrow> 0.9 | Some v \<Rightarrow> v),
                      buffers = None\<rparr>"
    by blast
  from f o have "self' = ?self\<lparr>optimizer := Some \<lparr>lr = 1 / 2, momentum = 0.9, buffers = None\<rparr>\<rparr>"
    by (cases self') (simp add: example_trainable_def)
  with r have c1: "reset_config ?self [''lr'' \<mapsto> 1 / 2]
       = (Inr True, ?self\<lparr>optimizer := Some \<lparr>lr = 1 / 2, momentum = 0.9, buffers = None\<rparr>\<rparr>)"
    by simp
  from t have c2: "reset_config ?self [''momentum'' \<mapsto> - 1]
       = (Inl (ValueError ''Invalid momentum value''), ?self\<lparr>optimizer := None\<rparr>)"
    by blast
  show ?thesis
    by (rule conjI [OF h1 conjI [OF h2 conjI [OF h3 conjI [OF h4 conjI [OF h5
          conjI [OF h6 conjI [OF h7 conjI [OF c1 c2]]]]]]]])
qed

text \<open>
  \<open>reset_config\<close> does not always return \<open>True\<close>: with \<open>lr\<close> set to -1 it
  raises \<open>ValueError\<close>, and the instance, whose model is untouched, has lost its
  optimizer.
\<close>

theorem reset_config_always_true_counterexample:
  "fst (reset_config (example_trainable 7 (1 / 10)) [''lr'' \<mapsto> - 1])
     = Inl (ValueError ''Invalid learning rate'')
   \<and> fst (reset_config (example_trainable 7 (1 / 10)) [''lr'' \<mapsto> - 1]) \<noteq> Inr True
   \<and> optimizer (snd (reset_config (example_trainable 7 (1 / 10)) [''lr'' \<mapsto> - 1])) = None
   \<and> model (snd (reset_config (example_trainable 7 (1 / 10)) [''lr'' \<mapsto> - 1])) = 7"
  by (simp add: reset_config_def example_trainable_def SGD_def dict_get_def Let_def)

section \<open>Missing hyperparameter keys\<close>

lemma train_mnist_both_keys:
  "config ''lr'' = Some l \<Longrightarrow> config ''momentum'' = Some m \<Longrightarrow> 0 \<le> l \<Longrightarrow> 0 \<le> m \<Longrightarrow>
   train_mnist fw config files
     = train_mnist_loop fw (fst (get_data_loaders fw)) (snd (get_data_loaders fw)) [0..<20]
         (ConvNet fw) \<lparr>lr = l, momentum = m, buffers = None\<rparr> files"
  by (simp add: train_mnist_def dict_index_def SGD_def Let_def case_prod_beta)

text \<open>
  Claim C10, as the code has it. The class-form trainable never raises \<open>KeyError\<close>:
  \<open>_setup\<close> and \<open>reset_config\<close> read \<open>lr\<close> and \<open>momentum\<close> with the
  defaults 0.01 and 0.9. They succeed on every configuration whose two values, the
  defaults standing in for missing keys, are not negative (\<open>reset_config\<close> on an
  instance that has its optimizer), the empty configuration included. A missing key is
  an error only for the function form, which indexes the configuration: without
  \<open>lr\<close> it raises \<open>KeyError\<close> for \<open>lr\<close>, with \<open>lr\<close> but without
  \<open>momentum\<close> it raises \<open>KeyError\<close> for \<open>momentum\<close>, and with both, neither
  negative, it goes on to its training loop.
\<close>

theorem class_form_tolerates_missing_keys:
  assumes "0 \<le> (case config ''lr'' of None \<Rightarrow> 0.01 | Some v \<Rightarrow> v)"
    and "0 \<le> (case config ''momentum'' of None \<Rightarrow> 0.9 | Some v \<Rightarrow> v)"
    and "optimizer self0 = Some old"
    and "c1 ''lr'' = None"
    and "c2 ''lr'' = Some l2" and "c2 ''momentum'' = None"
    and "c3 ''lr'' = Some l3" and "c3 ''momentum'' = Some m3" and "0 \<le> l3" and "0 \<le> m3"
  shows "(\<exists>self. trainable_setup fw config = Inr self
            \<and> optimizer self
                = Some \<lparr>lr = (case config ''lr'' of None \<Rightarrow> 0.01 | Some v \<Rightarrow> v),
                         momentum = (case config ''momentum'' of None \<Rightarrow> 0.9 | Some v \<Rightarrow> v),
                         buffers = None\<rparr>)
       \<and> (\<exists>self'. reset_config self0 config = (Inr True, self')
            \<and> optimizer self'
                = Some \<lparr>lr = (case config ''lr'' of None \<Rightarrow> 0.01 | Some v \<Rightarrow> v),
                         momentum = (case config ''momentum'' of None \<Rightarrow> 0.9 | Some v \<Rightarrow> v),
                         buffers = None\<rparr>)
       \<and> (\<exists>self. trainable_setup fw Map.empty = Inr self
            \<and> optimizer self = Some \<lparr>lr = 0.01, momentum = 0.9, buffers = None\<rparr>)
       \<and> (\<exists>self'. reset_config self0 Map.empty = (Inr True, self')
            \<and> optimizer self' = Some \<lparr>lr = 0.01, momentum = 0.9, buffers = None\<rparr>)
       \<and> trainable_setup fw any_config \<noteq> Inl (KeyError key)
       \<and> fst (reset_config any_self any_config) \<noteq> Inl (KeyError key)
       \<and> train_mnist fw c1 files = Inl (KeyError ''lr'')
       \<and> train_mnist fw c2 files = Inl (KeyError ''momentum'')
       \<and> train_mnist fw c3 files
           = train_mnist_loop fw (fst (get_data_loaders fw)) (snd (get_data_loaders fw))
               [0..<20] (ConvNet fw) \<lparr>lr = l3, momentum = m3, buffers = None\<rparr> files"
proof (intro conjI)
  show "\<exists>self. trainable_setup fw config = Inr self
            \<and> optimizer self
                = Some \<lparr>lr = (case config ''lr'' of None \<Rightarrow> 0.01 | Some v \<Rightarrow> v),
                         momentum = (case config ''momentum'' of None \<Rightarrow> 0.9 | Some v \<Rightarrow> v),
                         buffers = None\<rparr>"
    using assms(1,2)
    by (simp add: trainable_setup_def SGD_def dict_get_def Let_def case_prod_beta
        split: option.splits)
  show "\<exists>self'. reset_config self0 config = (Inr True, self')
            \<and> optimizer self'
                = Some \<lparr>lr = (case config ''lr'' of None \<Rightarrow> 0.01 | Some v \<Rightarrow> v),
                         momentum = (case config ''momentum'' of None \<Rightarrow> 0.9 | Some v \<Rightarrow> v),
                         buffers = None\<rparr>"
    using assms(1,2,3)
    by (simp add: reset_config_def SGD_def dict_get_def Let_def split: option.splits)
  show "\<exists>self. trainable_setup fw Map.empty = Inr self
            \<and> optimizer self = Some \<lparr>lr = 0.01, momentum = 0.9, buffers = None\<rparr>"
    by (simp add: trainable_setup_def SGD_def dict_get_def Let_def case_prod_beta)
  show "\<exists>self'. reset_config self0 Map.empty = (Inr True, self')
            \<and> optimizer self' = Some \<lparr>lr = 0.01, momentum = 0.9, buffers = None\<rparr>"
    using assms(3) by (simp add: reset_config_def SGD_def dict_get_def Let_def)
  show "trainable_setup fw any_config \<noteq> Inl (KeyError key)"
    by (simp add: trainable_setup_def SGD_def Let_def case_prod_beta)
  show "fst (reset_config any_self any_config) \<noteq> Inl (KeyError key)"
    by (simp add: reset_config_def SGD_def Let_def split: option.splits)
  show "train_mnist fw c1 files = Inl (KeyError ''lr'')"
    using assms(4) by (simp add: train_mnist_def dict_index_def Let_def case_prod_beta)
  show "train_mnist fw c2 files = Inl (KeyError ''momentum'')"
    using assms(5,6) by (simp add: train_mnist_def dict_index_def Let_def case_prod_beta)
  show "train_mnist fw c3 files
           = train_mnist_loop fw (fst (get_data_loaders fw)) (snd (get_data_loaders fw))
               [0..<20] (ConvNet fw) \<lparr>lr = l3, momentum = m3, buffers = None\<rparr> files"
    using assms(7,8,9,10) by (rule train_mnist_both_keys)
qed

theorem class_form_tolerates_missing_keys_witness:
  "(0 :: real) \<le> (case [''momentum'' \<mapsto> 1 / 2 :: real] ''lr'' of None \<Rightarrow> 0.01 | Some v \<Rightarrow> v)
   \<and> (0 :: real) \<le> (case [''momentum'' \<mapsto> 1 / 2 :: real] ''momentum'' of None \<Rightarrow> 0.9 | Some v \<Rightarrow> v)
   \<and> optimizer (example_trainable 7 (1 / 10)) = Some \<lparr>lr = 1 / 10, momentum = 9 / 10, buffers = None\<rparr>
   \<and> (Map.empty :: config) ''lr'' = None
   \<and> [''lr'' \<mapsto> 1 / 10 :: real] ''lr'' = Some (1 / 10)
   \<and> [''lr'' \<mapsto> 1 / 10 :: real] ''momentum'' = None
   \<and> [''lr'' \<mapsto> 1 / 10 :: real, ''momentum'' \<mapsto> 9 / 10] ''lr'' = Some (1 / 10)
   \<and> [''lr'' \<mapsto> 1 / 10 :: real, ''momentum'' \<mapsto> 9 / 10] ''momentum'' = Some (9 / 10)
   \<and> (0 :: real) \<le> 1 / 10 \<and> (0 :: real) \<le> 9 / 10
   \<and> train_mnist example_framework Map.empty Map.empty = Inl (KeyError ''lr'')
   \<and> train_mnist example_framework [''lr'' \<mapsto> 1 / 10] Map.empty = Inl (KeyError ''momentum'')
   \<and> (\<exists>self. trainable_setup example_framework [''momentum'' \<mapsto> 1 / 2] = Inr self
         \<and> optimizer self = Some \<lparr>lr = 0.01, momentum = 1 / 2, buffers = None\<rparr>)
   \<and> (\<exists>self. trainable_setup example_framework Map.empty = Inr self
         \<and> optimizer self = Some \<lparr>lr = 0.01, momentum = 0.9, buffers = None\<rparr>)"
proof -
  have g1: "(0 :: real) \<le> (case [''momentum'' \<mapsto> 1 / 2 :: real] ''lr'' of None \<Rightarrow> 0.01 | Some v \<Rightarrow> v)"
    by simp
  have g2: "(0 :: real) \<le> (case [''momentum'' \<mapsto> 1 / 2 :: real] ''momentum'' of None \<Rightarrow> 0.9 | Some v \<Rightarrow> v)"
    by simp
  have g3: "optimizer (example_trainable 7 (1 / 10))
              = Some \<lparr>lr = 1 / 10, momentum = 9 / 10, buffers = None\<rparr>"
    by (simp add: example_trainable_def)
  have h1: "(Map.empty :: config) ''lr'' = None" by simp
  have h2: "[''lr'' \<mapsto> 1 / 10 :: real] ''lr'' = Some (1 / 10)" by simp
  have h3: "[''lr'' \<mapsto> 1 / 10 :: real] ''momentum'' = None" by simp
  have h4: "[''lr'' \<mapsto> 1 / 10 :: real, ''momentum'' \<mapsto> 9 / 10] ''lr'' = Some (1 / 10)" by simp
  have h5: "[''lr'' \<mapsto> 1 / 10 :: real, ''momentum'' \<mapsto> 9 / 10] ''momentum'' = Some (9 / 10)"
    by simp
  have h6: "(0 :: real) \<le> 1 / 10" by simp
  have h7: "(0 :: real) \<le> 9 / 10" by simp
  note t = class_form_tolerates_missing_keys
    [where config = "[''momentum'' \<mapsto> 1 / 2]" and ?self0.0 = "example_trainable 7 (1 / 10)"
       and ?c1.0 = Map.empty and ?c2.0 = "[''lr'' \<mapsto> 1 / 10]"
       and ?c3.0 = "[''lr'' \<mapsto> 1 / 10, ''momentum'' \<mapsto> 9 / 10]"
       and fw = example_framework and files = Map.empty,
     OF g1 g2 g3 h1 h2 h3 h4 h5 h6 h7]
  from t have c1: "train_mnist example_framework Map.empty Map.empty = Inl (KeyError ''lr'')"
    by blast
  from t have c2: "train_mnist example_framework [''lr'' \<mapsto> 1 / 10] Map.empty
                     = Inl (KeyError ''momentum'')"
    by blast
  from t have "\<exists>self. trainable_setup example_framework [''momentum'' \<mapsto> 1 / 2] = Inr self
         \<and> optimizer self
             = Some \<lparr>lr = (case [''momentum'' \<mapsto> 1 / 2 :: real] ''lr'' of None \<Rightarrow> 0.01 | Some v \<Rightarrow> v),
                      momentum = (case [''momentum'' \<mapsto> 1 / 2 :: real] ''momentum'' of
                                    None \<Rightarrow> 0.9 | Some v \<Rightarrow> v),
                      buffers = None\<rparr>"
    by blast
  then have c3: "\<exists>self. trainable_setup example_framework [''momentum'' \<mapsto> 1 / 2] = Inr self
         \<and> optimizer self = Some \<lparr>lr = 0.01, momentum = 1 / 2, buffers = None\<rparr>"
    by simp
  from t have c4: "\<exists>self. trainable_setup example_framework Map.empty = Inr self
         \<and> optimizer self = Some \<lparr>lr = 0.01, momentum = 0.9, buffers = None\<rparr>"
    by blast
  show ?thesis
    by (rule conjI [OF g1 conjI [OF g2 conjI [OF g3 conjI [OF h1 conjI [OF h2 conjI [OF h3
          conjI [OF h4 conjI [OF h5 conjI [OF h6 conjI [OF h7 conjI [OF c1 conjI [OF c2
          conjI [OF c3 c4]]]]]]]]]]]]])
qed

text \<open>
  The class form does not succeed on every configuration: one that has a negative
  \<open>lr\<close> and no \<open>momentum\<close> makes \<open>_setup\<close> raise \<open>ValueError\<close>, and
  one that has a negative \<open>momentum\<close> and no \<open>lr\<close> makes \<open>reset_config\<close>
  raise it.
\<close>

theorem class_form_every_config_counterexample:
  "[''lr'' \<mapsto> - 1 :: real] ''momentum'' = None
   \<and> trainable_setup example_framework [''lr'' \<mapsto> - 1] = Inl (ValueError ''Invalid learning rate'')
   \<and> fst (reset_config (example_trainable 7 (1 / 10)) [''momentum'' \<mapsto> - 1])
       = Inl (ValueError ''Invalid momentum value'')"
  by (simp add: trainable_setup_def reset_config_def example_framework_def example_trainable_def
      SGD_def dict_get_def Let_def)

section \<open>Exceptions of a trainable\<close>

lemma tune_run_nth:
  "j < length configs \<Longrightarrow> tune_run trainable configs ! j = run_trial trainable (configs ! j)"
  by (simp add: tune_run_def)

text \<open>
  The loop has no handler: when the calls of the first \<open>k\<close> iterations return and
  the next call of \<open>train\<close> or of \<open>test\<close> raises, the loop raises that
  exception. \<open>ms\<close> and \<open>opts\<close> are the models and optimizers that the calls
  return, one after the other.
\<close>

lemma train_mnist_loop_raises:
  assumes "\<forall>j<k. train fw (ms j) (opts j) trl (Device ''cpu'') = Inr (ms (Suc j), opts (Suc j))
                 \<and> (\<exists>acc. test fw (ms (Suc j)) tsl (Device ''cpu'') = Inr acc)"
    and "k < length idxs"
    and "train fw (ms k) (opts k) trl (Device ''cpu'') = Inl e
         \<or> (\<exists>m' o'. train fw (ms k) (opts k) trl (Device ''cpu'') = Inr (m', o')
                    \<and> test fw m' tsl (Device ''cpu'') = Inl e)"
  shows "train_mnist_loop fw trl tsl idxs (ms 0) (opts 0) files = Inl e"
  using assms
proof (induction k arbitrary: idxs ms opts files)
  case 0
  then obtain i rest where idxs: "idxs = i # rest"
    by (cases idxs) auto
  from "0.prems"(3) show ?case
    unfolding idxs by auto
next
  case (Suc k)
  then obtain i rest where idxs: "idxs = i # rest"
    by (cases idxs) auto
  from Suc.prems(1) have first: "train fw (ms 0) (opts 0) trl (Device ''cpu'') = Inr (ms (Suc 0), opts (Suc 0))"
    and "\<exists>acc. test fw (ms (Suc 0)) tsl (Device ''cpu'') = Inr acc"
    by auto
  then obtain acc where acc: "test fw (ms (Suc 0)) tsl (Device ''cpu'') = Inr acc"
    by blast
  let ?ms = "\<lambda>j. ms (Suc j)" and ?opts = "\<lambda>j. opts (Suc j)"
  let ?files = "if i mod 5 = 0 then files(''./model.pth'' \<mapsto> ms (Suc 0)) else files"
  have ok: "\<forall>j<k. train fw (?ms j) (?opts j) trl (Device ''cpu'') = Inr (?ms (Suc j), ?opts (Suc j))
                 \<and> (\<exists>acc. test fw (?ms (Suc j)) tsl (Device ''cpu'') = Inr acc)"
    using Suc.prems(1) by auto
  have len: "k < length rest"
    using Suc.prems(2) idxs by simp
  have fail: "train fw (?ms k) (?opts k) trl (Device ''cpu'') = Inl e
         \<or> (\<exists>m' o'. train fw (?ms k) (?opts k) trl (Device ''cpu'') = Inr (m', o')
                    \<and> test fw m' tsl (Device ''cpu'') = Inl e)"
    using Suc.prems(3) by simp
  have "train_mnist_loop fw trl tsl rest (?ms 0) (?opts 0) ?files = Inl e"
    using ok len fail by (rule Suc.IH)
  with first acc show ?case
    unfolding idxs by simp
qed
lemma example_good_trial:
  "\<exists>files. train_mnist example_framework (example_config (1 / 10)) Map.empty = Inr files"
  by (simp add: train_mnist_def dict_index_def example_config_def example_framework_def
      SGD_def upt_rec)

text \<open>
  Claim C7. An exception raised inside a trainable during training is not caught by the
  trainable. In \<open>train_mnist\<close>, whichever of the twenty iterations it is in which
  \<open>train\<close> or \<open>test\<close> first raises, after the calls of the iterations before it
  have returned, \<open>train_mnist\<close> raises that exception; and what \<open>train\<close> or
  \<open>test\<close> raises in \<open>_train\<close> is what \<open>_train\<close> raises. The coordinator
  captures it: the trial of that configuration is errored and its error artifact holds
  the exception, while the run still has one trial per configuration and every trial is
  the outcome of the trainable on its own configuration.
\<close>

theorem trainable_exceptions_reach_coordinator:
  assumes lr: "(configs ! i) ''lr'' = Some l" and mo: "(configs ! i) ''momentum'' = Some mo"
    and l0: "0 \<le> l" and mo0: "0 \<le> mo"
    and i: "i < length configs"
    and m0: "ms 0 = ConvNet fw"
    and o0: "opts 0 = \<lparr>lr = l, momentum = mo, buffers = None\<rparr>"
    and ok: "\<forall>j<k. train fw (ms j) (opts j) (fst (get_data_loaders fw)) (Device ''cpu'')
                     = Inr (ms (Suc j), opts (Suc j))
                 \<and> (\<exists>acc. test fw (ms (Suc j)) (snd (get_data_loaders fw)) (Device ''cpu'')
                            = Inr acc)"
    and k: "k < 20"
    and fail: "train fw (ms k) (opts k) (fst (get_data_loaders fw)) (Device ''cpu'') = Inl e
         \<or> (\<exists>m' o'. train fw (ms k) (opts k) (fst (get_data_loaders fw)) (Device ''cpu'')
                       = Inr (m', o')
                    \<and> test fw m' (snd (get_data_loaders fw)) (Device ''cpu'') = Inl e)"
    and a3: "optimizer s3 = Some o3"
    and a3': "train fw (model s3) o3 (train_loader s3) (device s3) = Inl e3"
    and a4: "optimizer s4 = Some o4"
    and a4': "train fw (model s4) o4 (train_loader s4) (device s4) = Inr (m4', o4')"
    and a4'': "test fw m4' (test_loader s4) (device s4) = Inl e4"
  shows "train_mnist fw (configs ! i) files = Inl e
       \<and> trainable_train fw s3 = Inl e3
       \<and> trainable_train fw s4 = Inl e4
       \<and> length (tune_run (\<lambda>c. train_mnist fw c Map.empty) configs) = length configs
       \<and> status (tune_run (\<lambda>c. train_mnist fw c Map.empty) configs ! i) = ERROR
       \<and> error_file (tune_run (\<lambda>c. train_mnist fw c Map.empty) configs ! i) = Some e
       \<and> (\<forall>j < length configs.
             tune_run (\<lambda>c. train_mnist fw c Map.empty) configs ! j
               = run_trial (\<lambda>c. train_mnist fw c Map.empty) (configs ! j))"
proof -
  have raised: "train_mnist fw (configs ! i) fs = Inl e" for fs
  proof -
    have "train_mnist_loop fw (fst (get_data_loaders fw)) (snd (get_data_loaders fw)) [0..<20]
            (ms 0) (opts 0) fs = Inl e"
      using ok _ fail by (rule train_mnist_loop_raises) (simp add: k)
    then show ?thesis
      unfolding train_mnist_both_keys [OF lr mo l0 mo0] m0 o0 .
  qed
  show ?thesis
  proof (intro conjI allI impI)
    show "train_mnist fw (configs ! i) files = Inl e"
      by (rule raised)
    show "trainable_train fw s3 = Inl e3"
      using a3 a3' by (simp add: trainable_train_def)
    show "trainable_train fw s4 = Inl e4"
      using a4 a4' a4'' by (simp add: trainable_train_def)
    show "length (tune_run (\<lambda>c. train_mnist fw c Map.empty) configs) = length configs"
      by (simp add: tune_run_def)
    show "status (tune_run (\<lambda>c. train_mnist fw c Map.empty) configs ! i) = ERROR"
      using i raised [of Map.empty] by (simp add: tune_run_nth run_trial_def)
    show "error_file (tune_run (\<lambda>c. train_mnist fw c Map.empty) configs ! i) = Some e"
      using i raised [of Map.empty] by (simp add: tune_run_nth run_trial_def)
    show "tune_run (\<lambda>c. train_mnist fw c Map.empty) configs ! j
               = run_trial (\<lambda>c. train_mnist fw c Map.empty) (configs ! j)"
      if "j < length configs" for j
      using that by (rule tune_run_nth)
  qed
qed

theorem trainable_exceptions_reach_coordinator_witness:
  "([example_config (1 / 10), example_config (3 / 10), example_config (1 / 10)] ! 1) ''lr''
     = Some (3 / 10)
   \<and> ([example_config (1 / 10), example_config (3 / 10), example_config (1 / 10)] ! 1) ''momentum''
     = Some (9 / 10)
   \<and> (0 :: real) \<le> 3 / 10 \<and> (0 :: real) \<le> 9 / 10
   \<and> (1 :: nat) < length [example_config (1 / 10), example_config (3 / 10), example_config (1 / 10)]
   \<and> (0 :: nat) = ConvNet example_framework
   \<and> train example_framework 0 \<lparr>lr = 3 / 10, momentum = 9 / 10, buffers = None\<rparr>
        (fst (get_data_loaders example_framework)) (Device ''cpu'')
      = Inr (1, \<lparr>lr = 3 / 10, momentum = 9 / 10, buffers = None\<rparr>)
   \<and> test example_framework 1 (snd (get_data_loaders example_framework)) (Device ''cpu'')
      = Inr (1 / 2)
   \<and> train example_framework 1 \<lparr>lr = 3 / 10, momentum = 9 / 10, buffers = None\<rparr>
        (fst (get_data_loaders example_framework)) (Device ''cpu'')
      = Inr (2, \<lparr>lr = 3 / 10, momentum = 9 / 10, buffers = None\<rparr>)
   \<and> test example_framework 2 (snd (get_data_loaders example_framework)) (Device ''cpu'')
      = Inr (1 / 2)
   \<and> (2 :: nat) < 20
   \<and> train example_framework 2 \<lparr>lr = 3 / 10, momentum = 9 / 10, buffers = None\<rparr>
        (fst (get_data_loaders example_framework)) (Device ''cpu'')
      = Inl (FrameworkError ''diverged'')
   \<and> train_mnist example_framework (example_config (3 / 10)) Map.empty
      = Inl (FrameworkError ''diverged'')
   \<and> trainable_train example_framework (example_trainable 0 (9 / 10))
      = Inl (FrameworkError ''diverged'')
   \<and> trainable_train example_framework (example_trainable 99 (1 / 10))
      = Inl (FrameworkError ''bad batch'')
   \<and> map status (tune_run (\<lambda>c. train_mnist example_framework c Map.empty)
        [example_config (1 / 10), example_config (3 / 10), example_config (1 / 10)])
      = [TERMINATED, ERROR, TERMINATED]
   \<and> error_file (tune_run (\<lambda>c. train_mnist example_framework c Map.empty)
        [example_config (1 / 10), example_config (3 / 10), example_config (1 / 10)] ! 1)
      = Some (FrameworkError ''diverged'')"
proof -
  let ?fw = "example_framework"
  let ?configs = "[example_config (1 / 10), example_config (3 / 10), example_config (1 / 10)]"
  let ?run = "tune_run (\<lambda>c. train_mnist ?fw c Map.empty) ?configs"
  let ?o = "\<lparr>lr = 3 / 10, momentum = 9 / 10, buffers = None\<rparr> :: unit optimizer"
  let ?trl = "fst (get_data_loaders ?fw)" and ?tsl = "snd (get_data_loaders ?fw)"
  have lr: "(?configs ! 1) ''lr'' = Some (3 / 10)"
    by (simp add: example_config_def)
  have mo: "(?configs ! 1) ''momentum'' = Some (9 / 10)"
    by (simp add: example_config_def)
  have l0: "(0 :: real) \<le> 3 / 10" by simp
  have mo0: "(0 :: real) \<le> 9 / 10" by simp
  have i: "(1 :: nat) < length ?configs" by simp
  have m0: "(0 :: nat) = ConvNet ?fw"
    by (simp add: example_framework_def)
  have o0: "?o = \<lparr>lr = 3 / 10, momentum = 9 / 10, buffers = None\<rparr>" by simp
  have t0: "train ?fw 0 ?o ?trl (Device ''cpu'') = Inr (1, ?o)"
    by (simp add: example_framework_def)
  have s0: "test ?fw 1 ?tsl (Device ''cpu'') = Inr (1 / 2)"
    by (simp add: example_framework_def)
  have t1: "train ?fw 1 ?o ?trl (Device ''cpu'') = Inr (2, ?o)"
    by (simp add: example_framework_def)
  have s1: "test ?fw 2 ?tsl (Device ''cpu'') = Inr (1 / 2)"
    by (simp add: example_framework_def)
  have k: "(2 :: nat) < 20" by simp
  have t2: "train ?fw 2 ?o ?trl (Device ''cpu'') = Inl (FrameworkError ''diverged'')"
    by (simp add: example_framework_def)
  have ok: "\<forall>j<2. train ?fw ((\<lambda>j. j) j) ((\<lambda>_. ?o) j) ?trl (Device ''cpu'')
                     = Inr ((\<lambda>j. j) (Suc j), (\<lambda>_. ?o) (Suc j))
                 \<and> (\<exists>acc. test ?fw ((\<lambda>j. j) (Suc j)) ?tsl (Device ''cpu'') = Inr acc)"
  proof (intro allI impI)
    fix j :: nat
    assume "j < 2"
    then have "j = 0 \<or> j = 1" by auto
    with t0 s0 t1 s1 show "train ?fw ((\<lambda>j. j) j) ((\<lambda>_. ?o) j) ?trl (Device ''cpu'')
                     = Inr ((\<lambda>j. j) (Suc j), (\<lambda>_. ?o) (Suc j))
                 \<and> (\<exists>acc. test ?fw ((\<lambda>j. j) (Suc j)) ?tsl (Device ''cpu'') = Inr acc)"
      by (auto simp: numeral_2_eq_2)
  qed
  have fail: "train ?fw ((\<lambda>j. j) 2) ((\<lambda>_. ?o) 2) ?trl (Device ''cpu'')
                = Inl (FrameworkError ''diverged'')
         \<or> (\<exists>m' o'. train ?fw ((\<lambda>j. j) 2) ((\<lambda>_. ?o) 2) ?trl (Device ''cpu'') = Inr (m', o')
                    \<and> test ?fw m' ?tsl (Device ''cpu'') = Inl (FrameworkError ''diverged''))"
    using t2 by simp
  have a3: "optimizer (example_trainable 0 (9 / 10))
              = Some \<lparr>lr = 9 / 10, momentum = 9 / 10, buffers = None\<rparr>"
    by (simp add: example_trainable_def)
  have a3': "train ?fw (model (example_trainable 0 (9 / 10)))
               \<lparr>lr = 9 / 10, momentum = 9 / 10, buffers = None\<rparr>
               (train_loader (example_trainable 0 (9 / 10)))
               (device (example_trainable 0 (9 / 10)))
             = Inl (FrameworkError ''diverged'')"
    by (simp add: example_framework_def example_trainable_def)
  have a4: "optimizer (example_trainable 99 (1 / 10))
              = Some \<lparr>lr = 1 / 10, momentum = 9 / 10, buffers = None\<rparr>"
    by (simp add: example_trainable_def)
  have a4': "train ?fw (model (example_trainable 99 (1 / 10)))
               \<lparr>lr = 1 / 10, momentum = 9 / 10, buffers = None\<rparr>
               (train_loader (example_trainable 99 (1 / 10)))
               (device (example_trainable 99 (1 / 10)))
             = Inr (100, \<lparr>lr = 1 / 10, momentum = 9 / 10, buffers = None\<rparr>)"
    by (simp add: example_framework_def example_trainable_def)
  have a4'': "test ?fw 100 (test_loader (example_trainable 99 (1 / 10)))
                (device (example_trainable 99 (1 / 10)))
              = Inl (FrameworkError ''bad batch'')"
    by (simp add: example_framework_def)
  note t = trainable_exceptions_reach_coordinator
    [where configs = ?configs and i = 1 and ms = "\<lambda>j. j" and opts = "\<lambda>_. ?o"
       and fw = ?fw and k = 2 and files = Map.empty,
     OF lr mo l0 mo0 i m0 o0 ok k fail a3 a3' a4 a4' a4'']
  from t have "train_mnist ?fw (?configs ! 1) Map.empty = Inl (FrameworkError ''diverged'')"
    by blast
  then have c1: "train_mnist ?fw (example_config (3 / 10)) Map.empty
                   = Inl (FrameworkError ''diverged'')"
    by simp
  from t have c3: "trainable_train ?fw (example_trainable 0 (9 / 10))
                     = Inl (FrameworkError ''diverged'')"
    by blast
  from t have c4: "trainable_train ?fw (example_trainable 99 (1 / 10))
                     = Inl (FrameworkError ''bad batch'')"
    by blast
  from t have c6: "status (?run ! 1) = ERROR"
    by blast
  from t have c7: "error_file (?run ! 1) = Some (FrameworkError ''diverged'')"
    by blast
  from t have others: "\<forall>j < length ?configs.
      ?run ! j = run_trial (\<lambda>c. train_mnist ?fw c Map.empty) (?configs ! j)"
    by blast
  from others have "?run ! 0 = run_trial (\<lambda>c. train_mnist ?fw c Map.empty) (?configs ! 0)"
    by simp
  with example_good_trial have st0: "status (?run ! 0) = TERMINATED"
    by (auto simp: run_trial_def)
  from others have "?run ! 2 = run_trial (\<lambda>c. train_mnist ?fw c Map.empty) (?configs ! 2)"
    by simp
  with example_good_trial have st2: "status (?run ! 2) = TERMINATED"
    by (auto simp: run_trial_def)
  have len: "length ?run = 3"
    by (simp add: tune_run_def)
  have c8: "map status ?run = [TERMINATED, ERROR, TERMINATED]"
  proof (rule nth_equalityI)
    show "length (map status ?run) = length [TERMINATED, ERROR, TERMINATED]"
      using len by simp
    show "map status ?run ! j = [TERMINATED, ERROR, TERMINATED] ! j"
      if "j < length (map status ?run)" for j
    proof -
      from that len have "j = 0 \<or> j = 1 \<or> j = 2" by auto
      with st0 c6 st2 len show ?thesis by auto
    qed
  qed
  show ?thesis
    by (rule conjI [OF lr conjI [OF mo conjI [OF l0 conjI [OF mo0 conjI [OF i conjI [OF m0
          conjI [OF t0 conjI [OF s0 conjI [OF t1 conjI [OF s1 conjI [OF k conjI [OF t2
          conjI [OF c1 conjI [OF c3 conjI [OF c4 conjI [OF c8 c7]]]]]]]]]]]]]]]])
qed

section \<open>Properties of \<open>train_model\<close>\<close>

lemma total_gradient_two:
  "sum_list (map (\<lambda>j. compute_gradient j current_model) [0..<2]) = 2"
  by (simp add: compute_gradient_def upt_rec)

lemma fold_add_const:
  "fold (\<lambda>_ (m::int). m + c) xs a = a + int (length xs) * c"
  by (induction xs arbitrary: a) (simp_all add: algebra_simps)

lemma train_model_value: "train_model h = 20"
  unfolding train_model_def total_gradient_two
  by (simp add: fold_add_const)

text \<open>
  Claim C9. \<open>train_model\<close> returns exactly 20 for every hyperparameters argument: each of
  the ten iterations adds a total gradient of 2, the sum of two calls of
  \<open>compute_gradient\<close> that return 1 each. The result does not depend on the
  hyperparameters, so two calls with different hyperparameters return equal results, and
  the three experiments of the driver cell give \<open>[20, 20, 20]\<close>.
\<close>

theorem train_model_constant_20:
  "train_model h = 20
   \<and> sum_list (map (\<lambda>j. compute_gradient j m) [0..<2]) = 2
   \<and> train_model h1 = train_model h2
   \<and> experiments [a, b, c] = [20, 20, 20]"
  by (simp add: train_model_value total_gradient_two experiments_def)

end
